theory Spec2Isabelle
  imports Complex_Main "HOL-Library.Sublist"
begin

section \<open>Shared control state (lab4b.c, lines 24-37)\<close>

text \<open>
  The four globals of \<^verbatim>\<open>lab4b.c\<close>: \<^verbatim>\<open>volatile int user_int = 0\<close>,
  \<^verbatim>\<open>volatile int gen_reports = 1\<close>, \<^verbatim>\<open>int period = 1\<close> and \<^verbatim>\<open>char scale = 'F'\<close>.
  The two flags are C ints that the code tests with \<^verbatim>\<open>!user_int\<close> and
  \<^verbatim>\<open>if(gen_reports)\<close>, so they stay integers here. No arithmetic is ever done on
  any of them, so no wrap-around can occur.
\<close>

record globals =
  user_int :: int
  gen_reports :: int
  period :: int
  scale :: char

definition init_globals :: globals where
  "init_globals = \<lparr>user_int = 0, gen_reports = 1, period = 1, scale = CHR ''F''\<rparr>"

definition SIGINT :: int where
  "SIGINT = 2"

text \<open>\<^verbatim>\<open>signal_handler\<close> (lines 225-236): a store of 1, for SIGINT only.\<close>

definition signal_handler :: "int \<Rightarrow> globals \<Rightarrow> globals" where
  "signal_handler sig g = (if sig = SIGINT then g\<lparr>user_int := 1\<rparr> else g)"

text \<open>
  What the process does with a SIGINT. \<^verbatim>\<open>main\<close> installs \<^verbatim>\<open>signal_handler\<close> with
  \<^verbatim>\<open>signal(SIGINT, signal_handler)\<close> (line 77), once, before it creates the threads.
  Line 6 defines \<^verbatim>\<open>_XOPEN_SOURCE\<close> and nothing else, and with that the C library of
  the target (glibc) gives \<^verbatim>\<open>signal\<close> its System V meaning: the handler is one-shot.
  When a SIGINT is delivered the disposition goes back to \<^verbatim>\<open>SIG_DFL\<close> and the
  handler runs; the default action for the next SIGINT ends the process. Nothing in
  the program installs the handler again.
\<close>

datatype disposition = SigHandler | SigDfl

text \<open>
  \<^verbatim>\<open>raise(sig)\<close> for the disposition \<open>d\<close> of the signal: with the handler installed
  the handler runs in the calling thread and \<^verbatim>\<open>raise\<close> returns, with the disposition
  reset; with \<^verbatim>\<open>SIG_DFL\<close> the process is terminated by the signal (\<open>None\<close>).
\<close>

definition raise :: "disposition \<Rightarrow> int \<Rightarrow> globals \<Rightarrow> (disposition \<times> globals) option" where
  "raise d sig g = (if d = SigHandler then Some (SigDfl, signal_handler sig g) else None)"

section \<open>Temperature conversion (lines 238-252)\<close>

text \<open>
  \<^verbatim>\<open>get_temperature\<close> computes in C floating point: \<^verbatim>\<open>R\<close> and \<^verbatim>\<open>temp\<close> are
  \<^verbatim>\<open>float\<close>, every operator works on \<^verbatim>\<open>double\<close> (the literals are doubles) and each
  assignment rounds back to \<^verbatim>\<open>float\<close>. The embedding keeps every operation and every
  conversion of the source and takes their meaning as a parameter: \<open>'f\<close> is the type
  of \<^verbatim>\<open>float\<close> values, \<open>'d\<close> the type of \<^verbatim>\<open>double\<close> values. A literal is given by
  its decimal value.
\<close>

record ('f, 'd) arith =
  int_to_float :: "int \<Rightarrow> 'f"
  int_to_double :: "int \<Rightarrow> 'd"
  float_to_double :: "'f \<Rightarrow> 'd"
  double_to_float :: "'d \<Rightarrow> 'f"
  dconst :: "real \<Rightarrow> 'd"
  dadd :: "'d \<Rightarrow> 'd \<Rightarrow> 'd"
  dsub :: "'d \<Rightarrow> 'd \<Rightarrow> 'd"
  dmul :: "'d \<Rightarrow> 'd \<Rightarrow> 'd"
  ddiv :: "'d \<Rightarrow> 'd \<Rightarrow> 'd"
  dlog :: "'d \<Rightarrow> 'd"

text \<open>The affine step of line 249, \<^verbatim>\<open>temp = temp*9.0/5.0 + 32.0\<close>, on a float.\<close>

definition to_fahrenheit :: "('f, 'd) arith \<Rightarrow> 'f \<Rightarrow> 'f" where
  "to_fahrenheit fp temp =
     double_to_float fp
       (dadd fp (ddiv fp (dmul fp (float_to_double fp temp) (dconst fp 9.0)) (dconst fp 5.0))
                (dconst fp 32.0))"

definition get_temperature :: "('f, 'd) arith \<Rightarrow> int \<Rightarrow> char \<Rightarrow> 'f" where
  "get_temperature fp adc_val units =
     (let B = (4275 :: int);
          R = double_to_float fp
                (dsub fp (ddiv fp (dconst fp 1023.0) (float_to_double fp (int_to_float fp adc_val)))
                         (dconst fp 1.0));
          temp = double_to_float fp
                   (dsub fp
                      (ddiv fp (dconst fp 1.0)
                         (dadd fp (ddiv fp (dlog fp (float_to_double fp R)) (int_to_double fp B))
                                  (ddiv fp (dconst fp 1.0) (dconst fp 298.15))))
                      (dconst fp 273.15))
      in if units = CHR ''F'' then to_fahrenheit fp temp else temp)"

text \<open>
  Lines 244-246 on their own: the float \<^verbatim>\<open>temp\<close> before the test of \<^verbatim>\<open>units\<close>,
  which is the temperature in degrees Celsius.
\<close>

definition celsius_value :: "('f, 'd) arith \<Rightarrow> int \<Rightarrow> 'f" where
  "celsius_value fp adc_val =
     double_to_float fp
       (dsub fp
          (ddiv fp (dconst fp 1.0)
             (dadd fp
                (ddiv fp
                   (dlog fp
                      (float_to_double fp
                         (double_to_float fp
                            (dsub fp
                               (ddiv fp (dconst fp 1023.0)
                                  (float_to_double fp (int_to_float fp adc_val)))
                               (dconst fp 1.0)))))
                   (int_to_double fp 4275))
                (ddiv fp (dconst fp 1.0) (dconst fp 298.15))))
          (dconst fp 273.15))"

text \<open>
  Exact arithmetic: both C types read as the reals, no rounding, \<^verbatim>\<open>log\<close> the natural
  logarithm. It is not the arithmetic of the program, which rounds and has infinities;
  it is the arithmetic in which the formulas of the thermistor are written, and it
  serves as the arithmetic of the concrete runs below.
\<close>

definition exact_arith :: "(real, real) arith" where
  "exact_arith =
     \<lparr>int_to_float = of_int, int_to_double = of_int,
      float_to_double = (\<lambda>x. x), double_to_float = (\<lambda>x. x), dconst = (\<lambda>x. x),
      dadd = (+), dsub = (-), dmul = (*), ddiv = (/), dlog = ln\<rparr>"

section \<open>What the process does to the outside world\<close>

text \<open>
  The text that \<^verbatim>\<open>main\<close> builds in \<^verbatim>\<open>buff\<close>: a sample
  (\<^verbatim>\<open>sprintf(buff, "%s %.1f\n", timebuff, temperature)\<close>, line 171) or the shutdown
  message (\<^verbatim>\<open>sprintf(buff, "%s SHUTDOWN\n", timebuff)\<close>, line 198). The time stamp is
  what \<^verbatim>\<open>strftime\<close> gave; the printing of a float with \<^verbatim>\<open>%.1f\<close> is a parameter of
  \<open>render\<close>.
\<close>

datatype 'f out_record = SampleLine string 'f | ShutdownLine string

fun render :: "('f \<Rightarrow> string) \<Rightarrow> 'f out_record \<Rightarrow> string" where
  "render fmt (SampleLine timebuff temperature) = timebuff @ '' '' @ fmt temperature @ [CHR 0x0A]"
| "render fmt (ShutdownLine timebuff) = timebuff @ '' SHUTDOWN'' @ [CHR 0x0A]"

text \<open>
  The calls with an effect outside the process, in the order they are made:
  \<^verbatim>\<open>fprintf(stdout, ...)\<close>, a successful \<^verbatim>\<open>write(logfd, buff, 32)\<close>, a successful
  \<^verbatim>\<open>write(fd, buff, nbytes)\<close> of raw command bytes, \<^verbatim>\<open>fprintf(stderr, ...)\<close>,
  \<^verbatim>\<open>perror\<close>, \<^verbatim>\<open>sleep\<close>, \<^verbatim>\<open>nanosleep\<close> (seconds, nanoseconds) and a successful
  \<^verbatim>\<open>close(logfd)\<close>.
\<close>

datatype 'f effect =
    Stdout "'f out_record"
  | LogWrite32 "'f out_record"
  | LogBytes string
  | Stderr string
  | Perror string
  | Sleep int
  | Nanosleep int int
  | CloseLog

fun is_shutdown_stdout :: "'f effect \<Rightarrow> bool" where
  "is_shutdown_stdout (Stdout (ShutdownLine t)) = True"
| "is_shutdown_stdout e = False"

fun is_shutdown_log :: "'f effect \<Rightarrow> bool" where
  "is_shutdown_log (LogWrite32 (ShutdownLine t)) = True"
| "is_shutdown_log e = False"

fun is_sample :: "'f effect \<Rightarrow> bool" where
  "is_sample (Stdout (SampleLine t v)) = True"
| "is_sample (LogWrite32 (SampleLine t v)) = True"
| "is_sample e = False"

fun is_sleep :: "'f effect \<Rightarrow> bool" where
  "is_sleep (Sleep n) = True"
| "is_sleep e = False"

text \<open>
  What \<^verbatim>\<open>main\<close> knows after option parsing: \<^verbatim>\<open>logfile\<close> (\<open>None\<close> is \<^verbatim>\<open>NULL\<close>)
  and \<^verbatim>\<open>logfd\<close>, the descriptor \<^verbatim>\<open>open\<close> returned, or -1.
\<close>

record config =
  logfile :: "string option"
  logfd :: int

section \<open>The sampler: the loop of main (lines 157-191) and what follows it\<close>

text \<open>
  The body of \<^verbatim>\<open>while(!user_int)\<close>, lines 159-190. The time stamp, the value read
  from the ADC and the return value of \<^verbatim>\<open>write\<close> come from outside. The result is
  the effects in order and, when the body calls \<^verbatim>\<open>exit\<close>, the exit status. The
  \<^verbatim>\<open>sleep(period)\<close> of line 189 stands inside \<^verbatim>\<open>if(gen_reports)\<close>.
\<close>

definition sampler_body ::
  "config \<Rightarrow> ('f, 'd) arith \<Rightarrow> globals \<Rightarrow> string \<Rightarrow> int \<Rightarrow> int \<Rightarrow> 'f effect list \<times> int option" where
  "sampler_body cfg fp g timebuff adc_val write_rc =
     (if gen_reports g \<noteq> 0 then
        (let temperature = get_temperature fp adc_val (scale g);
             buff = SampleLine timebuff temperature
         in if logfile cfg \<noteq> None \<and> write_rc < 0
            then ([Stdout buff, Perror ''Couldn't write to log file''], Some 1)
            else ([Stdout buff] @ (if logfile cfg \<noteq> None then [LogWrite32 buff] else [])
                    @ [Sleep (period g)], None))
      else ([], None))"

text \<open>Lines 193-205: the shutdown message, to stdout and then to the log.\<close>

definition shutdown_record :: "config \<Rightarrow> string \<Rightarrow> int \<Rightarrow> 'f effect list \<times> int option" where
  "shutdown_record cfg timebuff write_rc =
     (let buff = ShutdownLine timebuff
      in if logfile cfg \<noteq> None then
           (if write_rc < 0
            then ([Stdout buff, Perror ''Couldn't write to log file''], Some 1)
            else ([Stdout buff, LogWrite32 buff], None))
         else ([Stdout buff], None))"

text \<open>Lines 207-213: closing the log.\<close>

definition close_log :: "config \<Rightarrow> int \<Rightarrow> 'f effect list \<times> int option" where
  "close_log cfg close_rc =
     (if logfile cfg \<noteq> None then
        (if close_rc < 0 then ([Perror ''Couldn't close log file''], Some 1)
         else ([CloseLog], None))
      else ([], None))"

section \<open>The command reader (lines 254-310)\<close>

text \<open>
  \<^verbatim>\<open>strncmp\<close> of the C library: at most \<open>n\<close> characters are compared, and the
  comparison stops after a NUL. A list that ends stands for a string whose NUL comes
  next (the string literals of the source).
\<close>

fun strncmp :: "string \<Rightarrow> string \<Rightarrow> nat \<Rightarrow> int" where
  "strncmp s1 s2 0 = 0"
| "strncmp s1 s2 (Suc n) =
     (let c1 = (case s1 of [] \<Rightarrow> CHR 0x00 | c # cs \<Rightarrow> c);
          c2 = (case s2 of [] \<Rightarrow> CHR 0x00 | c # cs \<Rightarrow> c)
      in if c1 \<noteq> c2 then int (of_char c1) - int (of_char c2)
         else if c1 = CHR 0x00 then 0
         else strncmp (tl s1) (tl s2) n)"

text \<open>
  \<^verbatim>\<open>atoi\<close> of the C library: white space is skipped, then an optional sign, then
  decimal digits up to the first character that is none. The result is \<open>None\<close> where
  C leaves the behaviour undefined: the scan runs off the end of the array before a
  character stops it, or the value is no \<^verbatim>\<open>int\<close>.
\<close>

definition isspace :: "char \<Rightarrow> bool" where
  "isspace c = (c = CHR '' '' \<or> c = CHR 0x09 \<or> c = CHR 0x0A \<or> c = CHR 0x0B \<or> c = CHR 0x0C
                \<or> c = CHR 0x0D)"

definition isdigit :: "char \<Rightarrow> bool" where
  "isdigit c = (48 \<le> (of_char c :: nat) \<and> (of_char c :: nat) \<le> 57)"

fun atoi_digits :: "int \<Rightarrow> string \<Rightarrow> int option" where
  "atoi_digits acc [] = None"
| "atoi_digits acc (c # cs) =
     (if isdigit c then atoi_digits (10 * acc + (int (of_char c) - 48)) cs else Some acc)"

fun atoi_signed :: "string \<Rightarrow> int option" where
  "atoi_signed [] = None"
| "atoi_signed (c # cs) =
     (if c = CHR ''-'' then map_option uminus (atoi_digits 0 cs)
      else if c = CHR ''+'' then atoi_digits 0 cs
      else atoi_digits 0 (c # cs))"

definition atoi :: "string \<Rightarrow> int option" where
  "atoi nptr =
     (case atoi_signed (dropWhile isspace nptr) of
        None \<Rightarrow> None
      | Some v \<Rightarrow> if - (2 ^ 31) \<le> v \<and> v < 2 ^ 31 then Some v else None)"

text \<open>
  \<^verbatim>\<open>nbytes = read(0, buff, 128)\<close> with \<^verbatim>\<open>nbytes >= 0\<close>: the chunk read overwrites
  the first \<^verbatim>\<open>nbytes\<close> bytes of \<^verbatim>\<open>buff\<close>. The array \<^verbatim>\<open>buff\<close> is declared before
  the loop and is never cleared or terminated, so the bytes behind the chunk are
  those of earlier reads (before the first read, whatever the stack held).
\<close>

definition read_into :: "string \<Rightarrow> string \<Rightarrow> string" where
  "read_into buff chunk = chunk @ drop (length chunk) buff"

datatype read_result = ReadError | ReadBytes string

text \<open>
  How one turn of a thread's loop ends: the loop goes on, the thread ends
  (\<^verbatim>\<open>pthread_exit\<close>), the process ends (\<^verbatim>\<open>exit\<close>), the process is terminated
  by a signal, or C leaves the behaviour undefined.
\<close>

datatype outcome = Continue | ThreadExit | ProcessExit int | ProcessKilled int | Undefined

text \<open>
  Lines 287-302: the chain of \<^verbatim>\<open>strncmp\<close> tests on \<^verbatim>\<open>buff\<close>, for the disposition
  \<open>d\<close> of SIGINT at that moment. The result is the outcome, the disposition, the
  globals and the effects. After \<^verbatim>\<open>OFF\<close> the thread ends only if \<^verbatim>\<open>raise\<close> returns.
\<close>

definition get_commands_dispatch ::
  "disposition \<Rightarrow> string \<Rightarrow> globals \<Rightarrow> outcome \<times> disposition \<times> globals \<times> 'f effect list" where
  "get_commands_dispatch d buff g =
     (if strncmp ''OFF'' buff 3 = 0 then
        (case raise d SIGINT g of
           Some (d', g') \<Rightarrow> (ThreadExit, d', g', [])
         | None \<Rightarrow> (ProcessKilled SIGINT, d, g, []))
      else if strncmp ''STOP'' buff 4 = 0 then (Continue, d, g\<lparr>gen_reports := 0\<rparr>, [])
      else if strncmp ''START'' buff 5 = 0 then (Continue, d, g\<lparr>gen_reports := 1\<rparr>, [])
      else if strncmp ''SCALE=F'' buff 7 = 0 then (Continue, d, g\<lparr>scale := CHR ''F''\<rparr>, [])
      else if strncmp ''SCALE=C'' buff 7 = 0 then (Continue, d, g\<lparr>scale := CHR ''C''\<rparr>, [])
      else if strncmp ''PERIOD='' buff 7 = 0 then
        (case atoi (drop 7 buff) of
           Some v \<Rightarrow> (Continue, d, g\<lparr>period := v\<rparr>, [])
         | None \<Rightarrow> (Undefined, d, g, []))
      else (Continue, d, g, [Stderr (''Bad command'' @ [CHR 0x0A])]))"

text \<open>
  Lines 267-307: one turn of the loop of \<^verbatim>\<open>get_commands\<close> after the test of
  \<^verbatim>\<open>user_int\<close>. From outside come the return value of \<^verbatim>\<open>select\<close>, what \<^verbatim>\<open>read\<close>
  returned and the return value of \<^verbatim>\<open>write\<close>; \<open>d\<close> is the disposition of SIGINT.
  The result is the outcome, the disposition, the globals, \<^verbatim>\<open>buff\<close> and the effects.
\<close>

definition get_commands_body ::
  "int \<Rightarrow> disposition \<Rightarrow> globals \<Rightarrow> string \<Rightarrow> int \<Rightarrow> read_result \<Rightarrow> int
     \<Rightarrow> outcome \<times> disposition \<times> globals \<times> string \<times> 'f effect list" where
  "get_commands_body fd d g buff select_rc rd write_rc =
     (if select_rc > 0 then
        (case rd of
           ReadError \<Rightarrow> (ProcessExit 1, d, g, buff, [Perror ''Failed to read from stdin''])
         | ReadBytes chunk \<Rightarrow>
             (let buff' = read_into buff chunk
              in if fd > 0 \<and> write_rc < 0
                 then (ProcessExit 1, d, g, buff', [Perror ''Failed to log command''])
                 else (case get_commands_dispatch d buff' g of
                         (oc, d', g', effs) \<Rightarrow>
                           (oc, d', g', buff', (if fd > 0 then [LogBytes chunk] else []) @ effs))))
      else if select_rc = - 1 then (ProcessExit 1, d, g, buff, [Perror ''Select failed''])
      else (Continue, d, g, buff, []))"

section \<open>The button watcher (lines 312-326)\<close>

text \<open>
  One turn of the loop of \<^verbatim>\<open>check_button\<close> after the test of \<^verbatim>\<open>user_int\<close>, for
  the value \<^verbatim>\<open>mraa_gpio_read\<close> returned and the disposition \<open>d\<close> of SIGINT.
  \<^verbatim>\<open>main\<close> passes \<^verbatim>\<open>check_period = 10\<close>.
\<close>

definition check_button_body ::
  "int \<Rightarrow> disposition \<Rightarrow> int \<Rightarrow> globals \<Rightarrow> outcome \<times> disposition \<times> globals \<times> 'f effect list" where
  "check_button_body check_period d gpio g =
     (if gpio \<noteq> 0 then
        (case raise d SIGINT g of
           Some (d', g') \<Rightarrow> (ThreadExit, d', g', [])
         | None \<Rightarrow> (ProcessKilled SIGINT, d, g, []))
      else (Continue, d, g,
            [Nanosleep (check_period div 1000) ((check_period mod 1000) * 1000000)]))"

section \<open>The process: three threads, one interrupt\<close>

text \<open>
  \<^verbatim>\<open>main\<close> creates the button thread and the command thread (lines 141-144) and then
  runs the sampler itself. Each of the three loops is \<^verbatim>\<open>while(!user_int)\<close>; the test
  and the body are separate steps, so another thread can run between them. A step is
  one of the events below, with the values that come from outside: time stamps, ADC
  and GPIO readings, and the return values of \<^verbatim>\<open>write\<close>, \<^verbatim>\<open>close\<close>, \<^verbatim>\<open>select\<close>
  and \<^verbatim>\<open>read\<close>. \<open>Interrupt\<close> is a SIGINT from outside (Ctrl-C). Steps interleave in
  any order; each step is atomic and sees the globals as the last step left them.
  The state holds the disposition of SIGINT, which is the same for all threads. The
  process ends by \<^verbatim>\<open>exit(n)\<close> or \<^verbatim>\<open>return n\<close> from \<^verbatim>\<open>main\<close>, or it is terminated by
  a signal; after that nothing steps.
\<close>

datatype main_pc = M_Test | M_Body | M_Shutdown | M_Close | M_Join | M_Returned

datatype thread_pc = T_Test | T_Body | T_Exited

datatype process_end = Exited int | Killed int

record 'f system =
  glob :: globals
  sigint :: disposition
  mpc :: main_pc
  cpc :: thread_pc
  bpc :: thread_pc
  cbuff :: string
  trace :: "'f effect list"
  exited :: "process_end option"

datatype event =
    MainTest
  | MainBody string int int
  | MainShutdown string int
  | MainClose int
  | MainJoin
  | CmdTest
  | CmdBody int read_result int
  | BtnTest
  | BtnBody int
  | Interrupt

text \<open>
  The state when the loops start: the flags as initialised, \<^verbatim>\<open>period\<close> and
  \<^verbatim>\<open>scale\<close> as the options left them, \<^verbatim>\<open>buff\<close> of \<^verbatim>\<open>get_commands\<close> with the 128
  bytes the stack happened to hold, the handler installed (line 77).
\<close>

definition init_system :: "int \<Rightarrow> char \<Rightarrow> string \<Rightarrow> 'f system" where
  "init_system p sc buff0 =
     \<lparr>glob = \<lparr>user_int = 0, gen_reports = 1, period = p, scale = sc\<rparr>,
      sigint = SigHandler, mpc = M_Test, cpc = T_Test, bpc = T_Test, cbuff = buff0, trace = [], exited = None\<rparr>"

text \<open>A step of main that may call \<^verbatim>\<open>exit\<close>: on success main moves on to \<open>pc\<close>.\<close>

fun main_after :: "'f system \<Rightarrow> main_pc \<Rightarrow> 'f effect list \<times> int option \<Rightarrow> 'f system" where
  "main_after s pc (effs, None) = s\<lparr>mpc := pc, trace := trace s @ effs\<rparr>"
| "main_after s pc (effs, Some n) = s\<lparr>trace := trace s @ effs, exited := Some (Exited n)\<rparr>"

text \<open>Where a thread stands after one turn of its loop; nothing follows undefined behaviour.\<close>

fun thread_after :: "outcome \<Rightarrow> (thread_pc \<times> process_end option) option" where
  "thread_after Continue = Some (T_Test, None)"
| "thread_after ThreadExit = Some (T_Exited, None)"
| "thread_after (ProcessExit n) = Some (T_Body, Some (Exited n))"
| "thread_after (ProcessKilled sig) = Some (T_Body, Some (Killed sig))"
| "thread_after Undefined = None"

text \<open>\<^verbatim>\<open>read(0, buff, 128)\<close> returns at most 128 bytes.\<close>

fun read_ok :: "read_result \<Rightarrow> bool" where
  "read_ok ReadError = True"
| "read_ok (ReadBytes chunk) = (length chunk \<le> 128)"

fun step :: "config \<Rightarrow> ('f, 'd) arith \<Rightarrow> event \<Rightarrow> 'f system \<Rightarrow> 'f system option" where
  "step cfg fp MainTest s =
     (if exited s = None \<and> mpc s = M_Test
      then Some (s\<lparr>mpc := (if user_int (glob s) = 0 then M_Body else M_Shutdown)\<rparr>)
      else None)"
| "step cfg fp (MainBody timebuff adc_val write_rc) s =
     (if exited s = None \<and> mpc s = M_Body
      then Some (main_after s M_Test (sampler_body cfg fp (glob s) timebuff adc_val write_rc))
      else None)"
| "step cfg fp (MainShutdown timebuff write_rc) s =
     (if exited s = None \<and> mpc s = M_Shutdown
      then Some (main_after s M_Close (shutdown_record cfg timebuff write_rc))
      else None)"
| "step cfg fp (MainClose close_rc) s =
     (if exited s = None \<and> mpc s = M_Close
      then Some (main_after s M_Join (close_log cfg close_rc))
      else None)"
| "step cfg fp MainJoin s =
     (if exited s = None \<and> mpc s = M_Join \<and> bpc s = T_Exited \<and> cpc s = T_Exited
      then Some (s\<lparr>mpc := M_Returned, exited := Some (Exited 0)\<rparr>)
      else None)"
| "step cfg fp CmdTest s =
     (if exited s = None \<and> cpc s = T_Test
      then Some (s\<lparr>cpc := (if user_int (glob s) = 0 then T_Body else T_Exited)\<rparr>)
      else None)"
| "step cfg fp (CmdBody select_rc rd write_rc) s =
     (if exited s = None \<and> cpc s = T_Body \<and> read_ok rd
      then (case get_commands_body (logfd cfg) (sigint s) (glob s) (cbuff s) select_rc rd
                   write_rc of
              (oc, d', g', buff', effs) \<Rightarrow>
                (case thread_after oc of
                   None \<Rightarrow> None
                 | Some (pc, ex) \<Rightarrow>
                     Some (s\<lparr>glob := g', sigint := d', cpc := pc, cbuff := buff',
                             trace := trace s @ effs, exited := ex\<rparr>)))
      else None)"
| "step cfg fp BtnTest s =
     (if exited s = None \<and> bpc s = T_Test
      then Some (s\<lparr>bpc := (if user_int (glob s) = 0 then T_Body else T_Exited)\<rparr>)
      else None)"
| "step cfg fp (BtnBody gpio) s =
     (if exited s = None \<and> bpc s = T_Body
      then (case check_button_body 10 (sigint s) gpio (glob s) of
              (oc, d', g', effs) \<Rightarrow>
                (case thread_after oc of
                   None \<Rightarrow> None
                 | Some (pc, ex) \<Rightarrow>
                     Some (s\<lparr>glob := g', sigint := d', bpc := pc, trace := trace s @ effs,
                             exited := ex\<rparr>)))
      else None)"
| "step cfg fp Interrupt s =
     (if exited s = None
      then (case raise (sigint s) SIGINT (glob s) of
              Some (d', g') \<Rightarrow> Some (s\<lparr>glob := g', sigint := d'\<rparr>)
            | None \<Rightarrow> Some (s\<lparr>exited := Some (Killed SIGINT)\<rparr>))
      else None)"

fun run :: "config \<Rightarrow> ('f, 'd) arith \<Rightarrow> event list \<Rightarrow> 'f system \<Rightarrow> 'f system option" where
  "run cfg fp [] s = Some s"
| "run cfg fp (ev # evs) s =
     (case step cfg fp ev s of None \<Rightarrow> None | Some s' \<Rightarrow> run cfg fp evs s')"

section \<open>The command protocol as the specification words it\<close>

text \<open>
  The specification's reading of one input chunk: the first of the literal prefixes
  \<^verbatim>\<open>OFF\<close>, \<^verbatim>\<open>STOP\<close>, \<^verbatim>\<open>START\<close>, \<^verbatim>\<open>SCALE=F\<close>, \<^verbatim>\<open>SCALE=C\<close>, \<^verbatim>\<open>PERIOD=\<close> that the
  chunk starts with decides the command, and \<^verbatim>\<open>PERIOD=\<close> carries the integer that
  follows it in the chunk (\<^verbatim>\<open>atoi\<close> of the rest of the chunk as a C string).
\<close>

datatype command = Off | Stop | Start | SetScale char | SetPeriod int | Unrecognized

definition spec_parse :: "string \<Rightarrow> command option" where
  "spec_parse chunk =
     (if prefix ''OFF'' chunk then Some Off
      else if prefix ''STOP'' chunk then Some Stop
      else if prefix ''START'' chunk then Some Start
      else if prefix ''SCALE=F'' chunk then Some (SetScale (CHR ''F''))
      else if prefix ''SCALE=C'' chunk then Some (SetScale (CHR ''C''))
      else if prefix ''PERIOD='' chunk then map_option SetPeriod (atoi (drop 7 chunk @ [CHR 0x00]))
      else Some Unrecognized)"

fun spec_apply :: "command \<Rightarrow> globals \<Rightarrow> outcome \<times> globals \<times> 'f effect list" where
  "spec_apply Off g = (ThreadExit, g\<lparr>user_int := 1\<rparr>, [])"
| "spec_apply Stop g = (Continue, g\<lparr>gen_reports := 0\<rparr>, [])"
| "spec_apply Start g = (Continue, g\<lparr>gen_reports := 1\<rparr>, [])"
| "spec_apply (SetScale c) g = (Continue, g\<lparr>scale := c\<rparr>, [])"
| "spec_apply (SetPeriod n) g = (Continue, g\<lparr>period := n\<rparr>, [])"
| "spec_apply Unrecognized g = (Continue, g, [Stderr (''Bad command'' @ [CHR 0x0A])])"

text \<open>
  A chunk that settles every test inside its own bytes: it is not the mere beginning
  of one of the six prefixes, and after \<^verbatim>\<open>PERIOD=\<close> the scan of \<^verbatim>\<open>atoi\<close> ends on a
  byte of the chunk. Lines typed at a terminal as whole commands are of this kind.
\<close>

definition self_delimiting :: "string \<Rightarrow> bool" where
  "self_delimiting chunk =
     (\<not> strict_prefix chunk ''OFF'' \<and> \<not> strict_prefix chunk ''STOP''
      \<and> \<not> strict_prefix chunk ''START'' \<and> \<not> strict_prefix chunk ''SCALE=F''
      \<and> \<not> strict_prefix chunk ''SCALE=C'' \<and> \<not> strict_prefix chunk ''PERIOD=''
      \<and> (prefix ''PERIOD='' chunk \<longrightarrow> atoi (drop 7 chunk) \<noteq> None))"

section \<open>Measures on a trace, and sample configurations\<close>

text \<open>
  How many times the shutdown message went to stdout and to the log, what follows the
  first shutdown message on the trace, and how many sample records stand there.
\<close>

definition shutdown_count :: "'f effect list \<Rightarrow> nat" where
  "shutdown_count tr = length (filter is_shutdown_stdout tr)"

definition shutdown_log_count :: "'f effect list \<Rightarrow> nat" where
  "shutdown_log_count tr = length (filter is_shutdown_log tr)"

definition after_shutdown :: "'f effect list \<Rightarrow> 'f effect list" where
  "after_shutdown tr = dropWhile (\<lambda>e. \<not> is_shutdown_stdout e) tr"

definition samples_after_shutdown :: "'f effect list \<Rightarrow> nat" where
  "samples_after_shutdown tr = length (filter is_sample (after_shutdown tr))"

text \<open>Effects that are neither a sample record nor a shutdown message.\<close>

definition quiet :: "'f effect list \<Rightarrow> bool" where
  "quiet es = (filter is_shutdown_stdout es = [] \<and> filter is_shutdown_log es = []
               \<and> filter is_sample es = [])"

text \<open>
  The invariant behind the shutdown protocol: where main stands decides how often the
  shutdown message has been written.
\<close>

definition shutdown_inv :: "config \<Rightarrow> 'f system \<Rightarrow> bool" where
  "shutdown_inv cfg s =
     ((exited s = Some (Exited 0) \<longrightarrow> mpc s = M_Returned)
      \<and> samples_after_shutdown (trace s) = 0
      \<and> (if mpc s = M_Test \<or> mpc s = M_Body \<or> (mpc s = M_Shutdown \<and> exited s = None)
          then shutdown_count (trace s) = 0 \<and> shutdown_log_count (trace s) = 0
          else if mpc s = M_Shutdown
          then shutdown_count (trace s) \<le> 1 \<and> shutdown_log_count (trace s) = 0
          else shutdown_count (trace s) = 1
               \<and> shutdown_log_count (trace s) = (if logfile cfg = None then 0 else 1)))"

text \<open>
  Two configurations and one content of the uninitialised \<^verbatim>\<open>buff\<close>, for the
  concrete runs below: no \<^verbatim>\<open>--log\<close> option; a log opened as descriptor 3; 128 NUL
  bytes.
\<close>

definition no_log :: config where
  "no_log = \<lparr>logfile = None, logfd = - 1\<rparr>"

definition with_log :: config where
  "with_log = \<lparr>logfile = Some ''lab4b.log'', logfd = 3\<rparr>"

definition stack0 :: string where
  "stack0 = replicate 128 (CHR 0x00)"

section \<open>Evaluating concrete runs\<close>

text \<open>\<^verbatim>\<open>strncmp\<close> with a numeral for \<open>n\<close>, and the definitions that evaluate a concrete run.\<close>

lemma strncmp_numeral:
  "strncmp s1 s2 (numeral k) =
     (let c1 = (case s1 of [] \<Rightarrow> CHR 0x00 | c # cs \<Rightarrow> c);
          c2 = (case s2 of [] \<Rightarrow> CHR 0x00 | c # cs \<Rightarrow> c)
      in if c1 \<noteq> c2 then int (of_char c1) - int (of_char c2)
         else if c1 = CHR 0x00 then 0
         else strncmp (tl s1) (tl s2) (pred_numeral k))"
  by (simp add: numeral_eq_Suc)

lemmas eval_cmd = init_system_def get_commands_body_def get_commands_dispatch_def
  read_into_def atoi_def isspace_def isdigit_def raise_def signal_handler_def SIGINT_def
  strncmp_numeral Let_def check_button_body_def sampler_body_def shutdown_record_def
  close_log_def

section \<open>Properties of the temperature conversion\<close>

text \<open>
  C6. The Fahrenheit result is the Celsius result put through \<open>t * 9 / 5 + 32\<close>: in
  the arithmetic of the code, whatever it is, the conversion is applied to the very
  float that the Celsius call returns (computed in double, rounded once), and in
  exact arithmetic the two sides are equal.
\<close>

theorem get_temperature_fahrenheit_of_celsius:
  "get_temperature fp v (CHR ''F'') = to_fahrenheit fp (get_temperature fp v (CHR ''C''))
   \<and> get_temperature exact_arith v (CHR ''F'')
       = get_temperature exact_arith v (CHR ''C'') * 9 / 5 + 32"
  by (simp add: get_temperature_def to_fahrenheit_def exact_arith_def)

text \<open>The logarithm at the mid-scale reading, and the temperature it gives.\<close>

lemma ln_511_512: "- (1 / 511) \<le> ln (511 / 512 :: real)" "ln (511 / 512 :: real) < 0"
proof -
  have "ln (512 / 511 :: real) \<le> 512 / 511 - 1"
    by (rule ln_le_minus_one) simp
  moreover have "ln (511 / 512 :: real) = - ln (512 / 511)"
    by (simp add: ln_div)
  ultimately show "- (1 / 511) \<le> ln (511 / 512 :: real)"
    by simp
  show "ln (511 / 512 :: real) < 0"
    by simp
qed

lemma celsius_bounds:
  fixes L :: real
  assumes "- (1 / 511) \<le> L" and "L < 0"
  shows "25 < 1 / (L / 4275 + 1 / 298.15) - 273.15"
    and "1 / (L / 4275 + 1 / 298.15) - 273.15 < 25.1"
proof -
  let ?D = "L / 4275 + 1 / 298.15"
  from assms have lo: "1 / 298.25 < ?D" and hi: "?D < 1 / 298.15"
    by simp_all
  from lo have pos: "0 < ?D"
    by (rule less_trans [rotated]) simp
  from hi pos have "1 / (1 / 298.15) < 1 / ?D"
    by (intro divide_strict_left_mono) simp_all
  then show "25 < 1 / ?D - 273.15" by simp
  from lo pos have "1 / ?D < 1 / (1 / 298.25)"
    by (intro divide_strict_left_mono) simp_all
  then show "1 / ?D - 273.15 < 25.1" by simp
qed

text \<open>
  C9. For every raw reading and every unit character other than \<^verbatim>\<open>'F'\<close>,
  \<^verbatim>\<open>get_temperature\<close> returns the Celsius value, the float \<^verbatim>\<open>temp\<close> of lines
  245-246, in whatever arithmetic the code runs: the unit only decides whether the
  Fahrenheit step of line 249 is applied to that value, and an unknown unit falls
  back to Celsius. Read without rounding, for \<open>0 < v < 1023\<close>, the value is
  \<open>1 / (ln (1023 / v - 1) / 4275 + 1 / 298.15) - 273.15\<close>; at the mid-scale reading
  512 it lies between 25 and 25.1 degrees.
\<close>

theorem get_temperature_default_celsius:
  "(units \<noteq> CHR ''F'' \<longrightarrow>
      get_temperature fp v units = celsius_value fp v
      \<and> get_temperature fp v units = get_temperature fp v (CHR ''C''))
   \<and> get_temperature fp v (CHR ''F'') = to_fahrenheit fp (celsius_value fp v)
   \<and> (0 < v \<and> v < 1023 \<longrightarrow>
        celsius_value exact_arith v
          = 1 / (ln (1023 / real_of_int v - 1) / 4275 + 1 / 298.15) - 273.15)"
  by (simp add: get_temperature_def celsius_value_def exact_arith_def)

theorem get_temperature_default_celsius_witness:
  "CHR ''K'' \<noteq> CHR ''F''
   \<and> get_temperature exact_arith 512 (CHR ''K'') = celsius_value exact_arith 512
   \<and> get_temperature exact_arith 512 (CHR ''K'') = get_temperature exact_arith 512 (CHR ''C'')
   \<and> (0 :: int) < 512 \<and> (512 :: int) < 1023
   \<and> celsius_value exact_arith 512 = 1 / (ln (1023 / 512 - 1) / 4275 + 1 / 298.15) - 273.15
   \<and> 25 < get_temperature exact_arith 512 (CHR ''K'')
   \<and> get_temperature exact_arith 512 (CHR ''K'') < 25.1"
proof -
  have v: "celsius_value exact_arith 512 = 1 / (ln (511 / 512) / 4275 + 1 / 298.15) - 273.15"
    by (simp add: celsius_value_def exact_arith_def)
  from celsius_bounds [OF ln_511_512]
  have "25 < celsius_value exact_arith 512" and "celsius_value exact_arith 512 < 25.1"
    unfolding v by simp_all
  with get_temperature_default_celsius [of "CHR ''K''" exact_arith 512] v show ?thesis
    by simp
qed

section \<open>The shutdown flag\<close>

text \<open>What holds of the flag: no step of any thread, and no signal, ever clears it.\<close>

lemma dispatch_user_int:
  "get_commands_dispatch d buff g = (oc, d', g', (effs :: 'f effect list)) \<Longrightarrow> user_int g \<noteq> 0
   \<Longrightarrow> user_int g' \<noteq> 0"
  by (auto simp: get_commands_dispatch_def raise_def signal_handler_def
      split: if_splits option.splits)

lemma get_commands_body_user_int:
  "get_commands_body fd d g buff select_rc rd write_rc = (oc, d', g', buff', (effs :: 'f effect list))
   \<Longrightarrow> user_int g \<noteq> 0 \<Longrightarrow> user_int g' \<noteq> 0"
  by (auto simp: get_commands_body_def Let_def split: if_splits read_result.splits prod.splits
      dest: dispatch_user_int)

lemma check_button_body_user_int:
  "check_button_body cp d gpio g = (oc, d', g', (effs :: 'f effect list)) \<Longrightarrow> user_int g \<noteq> 0
   \<Longrightarrow> user_int g' \<noteq> 0"
  by (auto simp: check_button_body_def raise_def signal_handler_def split: if_splits)

lemma main_after_glob: "glob (main_after s pc r) = glob s"
  by (cases r; cases "snd r") auto

lemma step_user_int:
  "step cfg fp ev s = Some s' \<Longrightarrow> user_int (glob s) \<noteq> 0 \<Longrightarrow> user_int (glob s') \<noteq> 0"
proof (cases ev)
  case (CmdBody select_rc rd write_rc)
  assume a: "step cfg fp ev s = Some s'" and b: "user_int (glob s) \<noteq> 0"
  from a CmdBody show ?thesis using b
    by (auto split: if_splits prod.splits option.splits dest: get_commands_body_user_int)
next
  case (BtnBody gpio)
  assume a: "step cfg fp ev s = Some s'" and b: "user_int (glob s) \<noteq> 0"
  from a BtnBody show ?thesis using b
    by (auto split: if_splits prod.splits option.splits dest: check_button_body_user_int)
qed (auto simp: main_after_glob raise_def signal_handler_def split: if_splits)

lemma run_user_int:
  "run cfg fp evs s = Some s' \<Longrightarrow> user_int (glob s) \<noteq> 0 \<Longrightarrow> user_int (glob s') \<noteq> 0"
proof (induction evs arbitrary: s)
  case Nil
  then show ?case by simp
next
  case (Cons ev evs)
  then show ?case by (auto split: option.splits dest: step_user_int)
qed

lemma handler_funpow: "(signal_handler SIGINT ^^ Suc n) g = signal_handler SIGINT g"
  by (induction n) (simp_all add: signal_handler_def)

text \<open>
  C2 fails on the code: a second shutdown request is not the same as one. The
  handler is installed once with \<^verbatim>\<open>signal\<close> (line 77) and is one-shot, so the first
  SIGINT sets \<^verbatim>\<open>user_int\<close> and the process goes on to an orderly shutdown, while a
  second SIGINT, before main has finished, finds \<^verbatim>\<open>SIG_DFL\<close> and terminates the
  process. Two interrupts from the terminal: after the first the flag is 1 and the
  process runs; after the second it has been killed by signal 2.
\<close>

theorem second_request_kills_the_process:
  "raise SigHandler SIGINT init_globals = Some (SigDfl, init_globals\<lparr>user_int := 1\<rparr>)
   \<and> raise SigDfl SIGINT (init_globals\<lparr>user_int := 1\<rparr>) = None
   \<and> run no_log exact_arith [Interrupt] (init_system 1 (CHR ''F'') stack0)
       = Some ((init_system 1 (CHR ''F'') stack0)
            \<lparr>glob := init_globals\<lparr>user_int := 1\<rparr>, sigint := SigDfl\<rparr>)
   \<and> run no_log exact_arith [Interrupt, Interrupt] (init_system 1 (CHR ''F'') stack0)
       = Some ((init_system 1 (CHR ''F'') stack0)
            \<lparr>glob := init_globals\<lparr>user_int := 1\<rparr>, sigint := SigDfl,
             exited := Some (Killed 2)\<rparr>)
   \<and> run no_log exact_arith [Interrupt, Interrupt, MainTest] (init_system 1 (CHR ''F'') stack0)
       = None"
  by (simp add: eval_cmd no_log_def stack0_def init_globals_def)

section \<open>The sampler while reporting is off\<close>

text \<open>
  C3 as stated fails: with \<^verbatim>\<open>gen_reports = 0\<close> the body of the sampler loop does
  not sleep. \<^verbatim>\<open>sleep(period)\<close> stands inside \<^verbatim>\<open>if(gen_reports)\<close>, so the turn has
  no effect at all.
\<close>

theorem paused_tick_sleep_counterexample:
  "Sleep (period (init_globals\<lparr>gen_reports := 0\<rparr>))
     \<notin> set (fst (sampler_body with_log exact_arith (init_globals\<lparr>gen_reports := 0\<rparr>)
                 ''12:00:00'' 512 32))
   \<and> filter is_sleep (fst (sampler_body with_log exact_arith (init_globals\<lparr>gen_reports := 0\<rparr>)
                 ''12:00:00'' 512 32)) = []"
  by (simp add: sampler_body_def init_globals_def)

text \<open>
  C3, amended. On a turn of the sampler loop where reporting is off, the sampler
  emits nothing and does not sleep: the turn has no effect and the loop goes straight
  back to its test of \<^verbatim>\<open>user_int\<close>. The loop keeps running, so once START has set
  \<^verbatim>\<open>gen_reports\<close> again the next turn emits a record (to stdout, and to the log if
  there is one) and then sleeps \<^verbatim>\<open>period\<close> seconds.
\<close>

theorem paused_tick_is_idle:
  "(gen_reports g = 0 \<longrightarrow> sampler_body cfg fp g timebuff adc_val write_rc = ([], None))
   \<and> (gen_reports g \<noteq> 0 \<and> \<not> (logfile cfg \<noteq> None \<and> write_rc < 0) \<longrightarrow>
        sampler_body cfg fp g timebuff adc_val write_rc
          = (Stdout (SampleLine timebuff (get_temperature fp adc_val (scale g)))
               # (if logfile cfg \<noteq> None
                  then [LogWrite32 (SampleLine timebuff (get_temperature fp adc_val (scale g)))]
                  else [])
               @ [Sleep (period g)], None))
   \<and> (exited s = None \<and> mpc s = M_Body \<and> gen_reports (glob s) = 0 \<longrightarrow>
        step cfg fp (MainBody timebuff adc_val write_rc) s = Some (s\<lparr>mpc := M_Test\<rparr>))"
  by (simp add: sampler_body_def Let_def)

theorem paused_tick_is_idle_witness:
  "sampler_body with_log exact_arith (init_globals\<lparr>gen_reports := 0\<rparr>) ''12:00:00'' 512 32
       = ([], None)
   \<and> sampler_body with_log exact_arith init_globals ''12:00:01'' 512 32
       = ([Stdout (SampleLine ''12:00:01'' (get_temperature exact_arith 512 (CHR ''F''))),
           LogWrite32 (SampleLine ''12:00:01'' (get_temperature exact_arith 512 (CHR ''F''))),
           Sleep 1], None)
   \<and> step with_log exact_arith (MainBody ''12:00:00'' 512 32)
         ((init_system 1 (CHR ''F'') stack0)
            \<lparr>glob := init_globals\<lparr>gen_reports := 0\<rparr>, mpc := M_Body\<rparr>)
       = Some ((init_system 1 (CHR ''F'') stack0)
            \<lparr>glob := init_globals\<lparr>gen_reports := 0\<rparr>, mpc := M_Test\<rparr>)
   \<and> run no_log exact_arith
       [CmdTest, CmdBody 1 (ReadBytes ''STOP\<newline>'') 0,
        MainTest, MainBody ''12:00:00'' 512 0, MainTest, MainBody ''12:00:00'' 512 0,
        CmdTest, CmdBody 1 (ReadBytes ''START\<newline>'') 0,
        MainTest, MainBody ''12:00:01'' 512 0]
       (init_system 1 (CHR ''F'') stack0)
     = Some ((init_system 1 (CHR ''F'') stack0)
          \<lparr>cbuff := read_into (read_into stack0 ''STOP\<newline>'') ''START\<newline>'',
           trace := [Stdout (SampleLine ''12:00:01'' (get_temperature exact_arith 512 (CHR ''F''))),
                     Sleep 1]\<rparr>)"
  using paused_tick_is_idle [of "init_globals\<lparr>gen_reports := 0\<rparr>" with_log exact_arith
      "''12:00:00''" 512 32
      "(init_system 1 (CHR ''F'') stack0)\<lparr>glob := init_globals\<lparr>gen_reports := 0\<rparr>, mpc := M_Body\<rparr>"]
    paused_tick_is_idle [of init_globals with_log exact_arith "''12:00:01''" 512 32]
  by (simp add: eval_cmd no_log_def with_log_def stack0_def init_globals_def)

section \<open>A failed write to the log\<close>

lemma step_after_exit: "exited s \<noteq> None \<Longrightarrow> step cfg fp ev s = None"
  by (cases ev) auto

text \<open>
  C8. A failed write to the log ends the whole process at once, with a diagnostic and
  exit status 1, at each of the three places that write: the sampler's record, the
  shutdown message, and the command reader's copy of the raw input. The step that
  fails calls \<^verbatim>\<open>perror\<close> and \<^verbatim>\<open>exit(1)\<close>; the write is not tried again, and after
  the exit no thread takes another step.
\<close>

theorem log_write_failure_is_fatal:
  "(exited s = None \<and> mpc s = M_Body \<and> gen_reports (glob s) \<noteq> 0 \<and> logfile cfg \<noteq> None
      \<and> write_rc < 0 \<longrightarrow>
      step cfg fp (MainBody timebuff adc_val write_rc) s
        = Some (s\<lparr>trace := trace s @
                   [Stdout (SampleLine timebuff (get_temperature fp adc_val (scale (glob s)))),
                    Perror ''Couldn't write to log file''],
                 exited := Some (Exited 1)\<rparr>))
   \<and> (exited s = None \<and> mpc s = M_Shutdown \<and> logfile cfg \<noteq> None \<and> write_rc < 0 \<longrightarrow>
      step cfg fp (MainShutdown timebuff write_rc) s
        = Some (s\<lparr>trace := trace s @
                   [Stdout (ShutdownLine timebuff), Perror ''Couldn't write to log file''],
                 exited := Some (Exited 1)\<rparr>))
   \<and> (exited s = None \<and> cpc s = T_Body \<and> select_rc > 0 \<and> length chunk \<le> 128 \<and> logfd cfg > 0
      \<and> write_rc < 0 \<longrightarrow>
      step cfg fp (CmdBody select_rc (ReadBytes chunk) write_rc) s
        = Some (s\<lparr>cbuff := read_into (cbuff s) chunk,
                 trace := trace s @ [Perror ''Failed to log command''],
                 exited := Some (Exited 1)\<rparr>))
   \<and> (exited s' \<noteq> None \<longrightarrow> step cfg fp ev s' = None)"
  using step_after_exit [of s' cfg fp ev]
  by (simp add: sampler_body_def shutdown_record_def get_commands_body_def Let_def)

theorem log_write_failure_is_fatal_witness:
  "step with_log exact_arith (MainBody ''12:00:00'' 512 (- 1))
       ((init_system 1 (CHR ''F'') stack0)\<lparr>mpc := M_Body\<rparr>)
     = Some ((init_system 1 (CHR ''F'') stack0)
         \<lparr>mpc := M_Body,
          trace := [Stdout (SampleLine ''12:00:00'' (get_temperature exact_arith 512 (CHR ''F''))),
                    Perror ''Couldn't write to log file''],
          exited := Some (Exited 1)\<rparr>)
   \<and> step with_log exact_arith (MainShutdown ''12:00:05'' (- 1))
       ((init_system 1 (CHR ''F'') stack0)\<lparr>mpc := M_Shutdown\<rparr>)
     = Some ((init_system 1 (CHR ''F'') stack0)
         \<lparr>mpc := M_Shutdown,
          trace := [Stdout (ShutdownLine ''12:00:05''), Perror ''Couldn't write to log file''],
          exited := Some (Exited 1)\<rparr>)
   \<and> step with_log exact_arith (CmdBody 1 (ReadBytes ''STOP'') (- 1))
       ((init_system 1 (CHR ''F'') stack0)\<lparr>cpc := T_Body\<rparr>)
     = Some ((init_system 1 (CHR ''F'') stack0)
         \<lparr>cpc := T_Body, cbuff := read_into stack0 ''STOP'',
          trace := [Perror ''Failed to log command''], exited := Some (Exited 1)\<rparr>)
   \<and> step with_log exact_arith BtnTest
       ((init_system 1 (CHR ''F'') stack0)\<lparr>exited := Some (Exited 1)\<rparr>) = None"
  using log_write_failure_is_fatal [of "(init_system 1 (CHR ''F'') stack0)\<lparr>mpc := M_Body\<rparr>"
      with_log "- 1" exact_arith "''12:00:00''" 512 1 "''STOP''"
      "(init_system 1 (CHR ''F'') stack0)\<lparr>exited := Some (Exited 1)\<rparr>" BtnTest]
    log_write_failure_is_fatal [of "(init_system 1 (CHR ''F'') stack0)\<lparr>mpc := M_Shutdown\<rparr>"
      with_log "- 1" exact_arith "''12:00:05''" 512 1 "''STOP''"
      "(init_system 1 (CHR ''F'') stack0)\<lparr>exited := Some (Exited 1)\<rparr>" BtnTest]
    log_write_failure_is_fatal [of "(init_system 1 (CHR ''F'') stack0)\<lparr>cpc := T_Body\<rparr>"
      with_log "- 1" exact_arith "''12:00:05''" 512 1 "''STOP''"
      "(init_system 1 (CHR ''F'') stack0)\<lparr>exited := Some (Exited 1)\<rparr>" BtnTest]
  by (simp add: init_system_def with_log_def)

section \<open>The command reader\<close>

text \<open>
  C10. Every recognised command other than OFF changes exactly one field of the
  shared state and leaves the others as they were: STOP and START write only
  \<^verbatim>\<open>gen_reports\<close>, SCALE=F and SCALE=C only \<^verbatim>\<open>scale\<close>, PERIOD= only \<^verbatim>\<open>period\<close>
  (the value \<^verbatim>\<open>atoi\<close> returns); none of them touches \<^verbatim>\<open>user_int\<close>. A chunk that
  is not recognised changes nothing.
\<close>

theorem recognized_command_frame:
  assumes "strncmp ''OFF'' buff 3 \<noteq> 0"
    and "get_commands_dispatch d buff g = (oc, d', g', effs)"
  shows "user_int g' = user_int g
    \<and> (strncmp ''STOP'' buff 4 = 0 \<longrightarrow> g' = g\<lparr>gen_reports := 0\<rparr>)
    \<and> (strncmp ''STOP'' buff 4 \<noteq> 0 \<and> strncmp ''START'' buff 5 = 0 \<longrightarrow> g' = g\<lparr>gen_reports := 1\<rparr>)
    \<and> (strncmp ''STOP'' buff 4 \<noteq> 0 \<and> strncmp ''START'' buff 5 \<noteq> 0
        \<and> strncmp ''SCALE=F'' buff 7 = 0 \<longrightarrow> g' = g\<lparr>scale := CHR ''F''\<rparr>)
    \<and> (strncmp ''STOP'' buff 4 \<noteq> 0 \<and> strncmp ''START'' buff 5 \<noteq> 0
        \<and> strncmp ''SCALE=F'' buff 7 \<noteq> 0 \<and> strncmp ''SCALE=C'' buff 7 = 0 \<longrightarrow>
          g' = g\<lparr>scale := CHR ''C''\<rparr>)
    \<and> (strncmp ''STOP'' buff 4 \<noteq> 0 \<and> strncmp ''START'' buff 5 \<noteq> 0
        \<and> strncmp ''SCALE=F'' buff 7 \<noteq> 0 \<and> strncmp ''SCALE=C'' buff 7 \<noteq> 0
        \<and> strncmp ''PERIOD='' buff 7 = 0 \<longrightarrow>
          g' = g\<lparr>period := period g'\<rparr>
          \<and> (oc = Continue \<longrightarrow> atoi (drop 7 buff) = Some (period g')))
    \<and> (strncmp ''STOP'' buff 4 \<noteq> 0 \<and> strncmp ''START'' buff 5 \<noteq> 0
        \<and> strncmp ''SCALE=F'' buff 7 \<noteq> 0 \<and> strncmp ''SCALE=C'' buff 7 \<noteq> 0
        \<and> strncmp ''PERIOD='' buff 7 \<noteq> 0 \<longrightarrow> g' = g)"
  using assms
  by (auto simp: get_commands_dispatch_def split: if_splits option.splits)

theorem recognized_command_frame_witness:
  "strncmp ''OFF'' (read_into stack0 ''PERIOD=5\<newline>'') 3 \<noteq> 0
   \<and> get_commands_dispatch SigHandler (read_into stack0 ''PERIOD=5\<newline>'') init_globals
       = (Continue, SigHandler, init_globals\<lparr>period := 5\<rparr>, ([] :: real effect list))
   \<and> user_int (init_globals\<lparr>period := 5\<rparr>) = user_int init_globals
   \<and> gen_reports (init_globals\<lparr>period := 5\<rparr>) = gen_reports init_globals
   \<and> scale (init_globals\<lparr>period := 5\<rparr>) = scale init_globals
   \<and> strncmp ''PERIOD='' (read_into stack0 ''PERIOD=5\<newline>'') 7 = 0
   \<and> atoi (drop 7 (read_into stack0 ''PERIOD=5\<newline>'')) = Some 5"
proof -
  have a: "strncmp ''OFF'' (read_into stack0 ''PERIOD=5\<newline>'') 3 \<noteq> 0"
    by (simp add: eval_cmd stack0_def init_globals_def)
  have b: "get_commands_dispatch SigHandler (read_into stack0 ''PERIOD=5\<newline>'') init_globals
       = (Continue, SigHandler, init_globals\<lparr>period := 5\<rparr>, ([] :: real effect list))"
    by (simp add: eval_cmd stack0_def init_globals_def)
  from recognized_command_frame [OF a b] a b show ?thesis
    by (simp add: eval_cmd stack0_def init_globals_def)
qed

text \<open>
  Where the code and the protocol agree: on a chunk that settles every test inside
  its own bytes, and with the handler still installed, the chain of \<^verbatim>\<open>strncmp\<close>
  tests does what the protocol says for the chunk, whatever earlier reads left in
  \<^verbatim>\<open>buff\<close>.
\<close>

lemma of_char_nul: "x \<noteq> CHR 0x00 \<Longrightarrow> (of_char x :: nat) \<noteq> 0"
  using of_char_eq_iff [of x "CHR 0x00", where ?'a = nat] by simp

lemma strncmp_prefix:
  "CHR 0x00 \<notin> set p \<Longrightarrow> (strncmp p b (length p) = 0) = prefix p b"
proof (induction p arbitrary: b)
  case Nil
  then show ?case by simp
next
  case (Cons x xs)
  show ?case
  proof (cases b)
    case Nil
    with Cons.prems of_char_nul [of x] show ?thesis by (auto simp: Let_def)
  next
    case (Cons y ys)
    with Cons.prems Cons.IH [of ys] show ?thesis by (auto simp: Let_def)
  qed
qed

lemma strncmp_literals:
  "(strncmp ''OFF'' b 3 = 0) = prefix ''OFF'' b"
  "(strncmp ''STOP'' b 4 = 0) = prefix ''STOP'' b"
  "(strncmp ''START'' b 5 = 0) = prefix ''START'' b"
  "(strncmp ''SCALE=F'' b 7 = 0) = prefix ''SCALE=F'' b"
  "(strncmp ''SCALE=C'' b 7 = 0) = prefix ''SCALE=C'' b"
  "(strncmp ''PERIOD='' b 7 = 0) = prefix ''PERIOD='' b"
  using strncmp_prefix [of "''OFF''" b] strncmp_prefix [of "''STOP''" b]
    strncmp_prefix [of "''START''" b] strncmp_prefix [of "''SCALE=F''" b]
    strncmp_prefix [of "''SCALE=C''" b] strncmp_prefix [of "''PERIOD=''" b]
  by (simp_all add: numeral_eq_Suc)

lemma prefix_read_into:
  "\<not> strict_prefix chunk p \<Longrightarrow> prefix p (read_into buff chunk) = prefix p chunk"
  by (auto simp: read_into_def prefix_append strict_prefix_def)

lemma atoi_digits_append:
  "atoi_digits acc xs = Some v \<Longrightarrow> atoi_digits acc (xs @ ys) = Some v"
  by (induction xs arbitrary: acc) (auto split: if_splits)

lemma atoi_signed_append:
  "atoi_signed xs = Some v \<Longrightarrow> atoi_signed (xs @ ys) = Some v"
  by (cases xs) (auto split: if_splits simp: atoi_digits_append)

lemma atoi_append:
  assumes "atoi xs = Some v"
  shows "atoi (xs @ ys) = Some v"
proof -
  from assms have "atoi_signed (dropWhile isspace xs) \<noteq> None"
    by (auto simp: atoi_def split: option.splits)
  then have "\<not> (\<forall>x\<in>set xs. isspace x)"
    by (cases "dropWhile isspace xs") (auto simp del: dropWhile_eq_Nil_conv simp: dropWhile_eq_Nil_conv [symmetric])
  then obtain x where "x \<in> set xs" "\<not> isspace x"
    by auto
  then have "dropWhile isspace (xs @ ys) = dropWhile isspace xs @ ys"
    by (simp add: dropWhile_append1)
  with assms show ?thesis
    by (auto simp: atoi_def atoi_signed_append split: option.splits if_splits)
qed

lemma drop_read_into:
  "prefix ''PERIOD='' chunk \<Longrightarrow> drop 7 (read_into buff chunk) = drop 7 chunk @ drop (length chunk) buff"
  by (auto simp: read_into_def prefix_def)

lemma dispatch_refines_spec:
  assumes "self_delimiting chunk"
  shows "\<exists>c oc d' g' effs. spec_parse chunk = Some c
           \<and> get_commands_dispatch SigHandler (read_into buff chunk) g = (oc, d', g', effs)
           \<and> spec_apply c g = (oc, g', effs)"
proof (cases "prefix ''PERIOD='' chunk")
  case True
  with assms obtain v where v: "atoi (drop 7 chunk) = Some v"
    by (auto simp: self_delimiting_def)
  from atoi_append [OF v] True
  have "atoi (drop 7 (read_into buff chunk)) = Some v" and "atoi (drop 7 chunk @ [CHR 0x00]) = Some v"
    by (simp_all add: drop_read_into)
  with assms True show ?thesis
    by (auto simp: self_delimiting_def get_commands_dispatch_def spec_parse_def strncmp_literals
        prefix_read_into raise_def signal_handler_def)
next
  case False
  with assms show ?thesis
    by (auto simp: self_delimiting_def get_commands_dispatch_def spec_parse_def strncmp_literals
        prefix_read_into raise_def signal_handler_def)
qed

lemma self_delimiting_examples:
  "self_delimiting ''OFF\<newline>''" "self_delimiting ''STOP\<newline>''"
  "self_delimiting ''PERIOD=-3\<newline>''" "self_delimiting ''BOGUS''"
  "\<not> self_delimiting ''O''" "\<not> self_delimiting ''PERIOD=\<newline>''" "\<not> self_delimiting ''''"
  by (simp_all add: self_delimiting_def atoi_def isspace_def isdigit_def strict_prefix_def)

text \<open>
  C4 fails on the code where a chunk ends before the text the command needs.
  \<^verbatim>\<open>buff\<close> is neither cleared nor terminated after \<^verbatim>\<open>read\<close>, so \<^verbatim>\<open>strncmp\<close> and
  \<^verbatim>\<open>atoi\<close> go on into the bytes of earlier reads. After the line \<^verbatim>\<open>PERIOD=15\<close> the
  line \<^verbatim>\<open>PERIOD=\<close> (no integer follows; as a C string \<^verbatim>\<open>atoi\<close> gives 0) sets the
  period to 5: \<^verbatim>\<open>atoi\<close> skips the line feed and reads the 5 left over from 15.
  After the line \<^verbatim>\<open>PERIOD=12345\<close> the eight bytes \<^verbatim>\<open>PERIOD=9\<close>, read without a
  line feed, set the period to 92345.
\<close>

theorem period_command_reads_stale_bytes:
  "run no_log exact_arith
       [CmdTest, CmdBody 1 (ReadBytes ''PERIOD=15\<newline>'') 0,
        CmdTest, CmdBody 1 (ReadBytes ''PERIOD=\<newline>'') 0]
       (init_system 1 (CHR ''F'') stack0)
     = Some ((init_system 1 (CHR ''F'') stack0)
          \<lparr>glob := init_globals\<lparr>period := 5\<rparr>,
           cbuff := read_into (read_into stack0 ''PERIOD=15\<newline>'') ''PERIOD=\<newline>''\<rparr>)
   \<and> spec_parse ''PERIOD=\<newline>'' = Some (SetPeriod 0)
   \<and> run no_log exact_arith
       [CmdTest, CmdBody 1 (ReadBytes ''PERIOD=12345\<newline>'') 0,
        CmdTest, CmdBody 1 (ReadBytes ''PERIOD=9'') 0]
       (init_system 1 (CHR ''F'') stack0)
     = Some ((init_system 1 (CHR ''F'') stack0)
          \<lparr>glob := init_globals\<lparr>period := 92345\<rparr>,
           cbuff := read_into (read_into stack0 ''PERIOD=12345\<newline>'') ''PERIOD=9''\<rparr>)
   \<and> spec_parse ''PERIOD=9'' = Some (SetPeriod 9)"
  by (simp add: eval_cmd no_log_def stack0_def init_globals_def spec_parse_def)

text \<open>
  C7 fails on the code for a chunk that is the beginning of a command prefix. After
  the line \<^verbatim>\<open>XFF\<close> (answered with one diagnostic), the one-byte chunk \<^verbatim>\<open>O\<close>
  starts with none of the six prefixes, yet \<^verbatim>\<open>buff\<close> then reads \<^verbatim>\<open>OFF\<close>: the reader
  raises SIGINT and ends, with no diagnostic for the chunk.
\<close>

theorem short_chunk_completed_by_stale_bytes:
  "get_commands_body (- 1) SigHandler init_globals (read_into stack0 ''XFF\<newline>'') 1
       (ReadBytes ''O'') 0
     = (ThreadExit, SigDfl, init_globals\<lparr>user_int := 1\<rparr>, read_into stack0 ''OFF\<newline>'',
        ([] :: real effect list))
   \<and> run no_log exact_arith
       [CmdTest, CmdBody 1 (ReadBytes ''XFF\<newline>'') 0,
        CmdTest, CmdBody 1 (ReadBytes ''O'') 0]
       (init_system 1 (CHR ''F'') stack0)
     = Some ((init_system 1 (CHR ''F'') stack0)
          \<lparr>glob := init_globals\<lparr>user_int := 1\<rparr>, sigint := SigDfl, cpc := T_Exited,
           cbuff := read_into stack0 ''OFF\<newline>'',
           trace := [Stderr (''Bad command'' @ [CHR 0x0A])]\<rparr>)
   \<and> spec_parse ''O'' = Some Unrecognized"
  by (simp add: eval_cmd no_log_def stack0_def init_globals_def spec_parse_def)

section \<open>The shutdown message\<close>

lemma count_append:
  "shutdown_count (tr @ es) = shutdown_count tr + shutdown_count es"
  "shutdown_log_count (tr @ es) = shutdown_log_count tr + shutdown_log_count es"
  by (simp_all add: shutdown_count_def shutdown_log_count_def)

lemma quiet_counts:
  "quiet es \<Longrightarrow> shutdown_count es = 0"
  "quiet es \<Longrightarrow> shutdown_log_count es = 0"
  by (simp_all add: quiet_def shutdown_count_def shutdown_log_count_def)

lemma after_shutdown_none:
  "shutdown_count tr = 0 \<Longrightarrow> after_shutdown (tr @ es) = after_shutdown es"
  by (simp add: shutdown_count_def after_shutdown_def filter_empty_conv dropWhile_append2)

lemma after_shutdown_some:
  "shutdown_count tr \<noteq> 0 \<Longrightarrow> after_shutdown (tr @ es) = after_shutdown tr @ es"
proof -
  assume "shutdown_count tr \<noteq> 0"
  then obtain x where "x \<in> set tr" "is_shutdown_stdout x"
    by (auto simp: shutdown_count_def filter_empty_conv)
  then show ?thesis
    by (simp add: after_shutdown_def dropWhile_append1)
qed

lemma samples_after_quiet:
  "quiet es \<Longrightarrow> samples_after_shutdown (tr @ es) = samples_after_shutdown tr"
proof (cases "shutdown_count tr = 0")
  case True
  assume q: "quiet es"
  then have "after_shutdown es = []"
    by (simp add: after_shutdown_def quiet_def filter_empty_conv)
  moreover from True have "after_shutdown tr = []"
    by (simp add: after_shutdown_def shutdown_count_def filter_empty_conv)
  ultimately show ?thesis using True
    by (simp add: samples_after_shutdown_def after_shutdown_none)
next
  case False
  assume "quiet es"
  then show ?thesis using False
    by (simp add: samples_after_shutdown_def after_shutdown_some quiet_def)
qed

lemma sampler_body_effects:
  "sampler_body cfg fp g tb adc wrc = (es, ex) \<Longrightarrow>
     shutdown_count es = 0 \<and> shutdown_log_count es = 0 \<and> after_shutdown es = [] \<and> ex \<noteq> Some 0"
  by (auto simp: sampler_body_def Let_def shutdown_count_def shutdown_log_count_def
      after_shutdown_def split: if_splits)

lemma close_log_effects:
  "close_log cfg crc = (es, ex) \<Longrightarrow> quiet es \<and> ex \<noteq> Some 0"
  by (auto simp: close_log_def quiet_def split: if_splits)

lemma dispatch_quiet:
  "get_commands_dispatch d buff g = (oc, d', g', es) \<Longrightarrow> quiet es \<and> (\<forall>n. oc \<noteq> ProcessExit n)"
  by (auto simp: get_commands_dispatch_def quiet_def split: if_splits option.splits)

lemma get_commands_body_quiet:
  "get_commands_body fd d g buff sel rd wrc = (oc, d', g', buff', es) \<Longrightarrow>
     quiet es \<and> (\<forall>n. oc = ProcessExit n \<longrightarrow> n = 1)"
  by (auto simp: get_commands_body_def Let_def quiet_def split: if_splits read_result.splits
      prod.splits dest!: dispatch_quiet)

lemma check_button_body_quiet:
  "check_button_body cp d gpio g = (oc, d', g', es) \<Longrightarrow> quiet es \<and> (\<forall>n. oc \<noteq> ProcessExit n)"
  by (auto simp: check_button_body_def quiet_def split: if_splits option.splits)

lemma thread_after_exit:
  "thread_after oc = Some (pc, ex) \<Longrightarrow> (\<forall>n. oc = ProcessExit n \<longrightarrow> n = 1)
   \<Longrightarrow> ex \<noteq> Some (Exited 0)"
  by (cases oc) auto

lemma inv_init: "shutdown_inv cfg (init_system p sc buff0)"
  by (simp add: shutdown_inv_def init_system_def shutdown_count_def shutdown_log_count_def
      samples_after_shutdown_def after_shutdown_def)

lemma inv_pc_only:
  assumes "shutdown_inv cfg s" and "exited s = None"
    and "mpc s' = mpc s" and "trace s' = trace s" and "exited s' = None"
  shows "shutdown_inv cfg s'"
  using assms by (simp add: shutdown_inv_def)

lemma inv_quiet_step:
  assumes "shutdown_inv cfg s" and "exited s = None" and "quiet es" and "ex \<noteq> Some (Exited 0)"
    and "mpc s' = mpc s" and "trace s' = trace s @ es" and "exited s' = ex"
  shows "shutdown_inv cfg s'"
  using assms
  by (auto simp: shutdown_inv_def count_append quiet_counts samples_after_quiet split: if_splits)

lemma inv_main_body:
  assumes "shutdown_inv cfg s" and "exited s = None" and "mpc s = M_Body"
  shows "shutdown_inv cfg (main_after s M_Test (sampler_body cfg fp (glob s) tb adc wrc))"
proof (cases "sampler_body cfg fp (glob s) tb adc wrc")
  case (Pair es ex)
  from sampler_body_effects [OF Pair] assms show ?thesis
    unfolding Pair
    by (cases ex)
      (auto simp: shutdown_inv_def count_append samples_after_shutdown_def after_shutdown_none)
qed

lemma inv_main_shutdown:
  assumes "shutdown_inv cfg s" and "exited s = None" and "mpc s = M_Shutdown"
  shows "shutdown_inv cfg (main_after s M_Close (shutdown_record cfg tb wrc))"
  using assms
  by (auto simp: shutdown_inv_def shutdown_record_def Let_def count_append
      samples_after_shutdown_def after_shutdown_none)
    (simp_all add: shutdown_count_def shutdown_log_count_def after_shutdown_def)

lemma inv_main_close:
  fixes s :: "'f system"
  assumes "shutdown_inv cfg s" and "exited s = None" and "mpc s = M_Close"
  shows "shutdown_inv cfg (main_after s M_Join (close_log cfg crc))"
proof (cases "close_log cfg crc :: 'f effect list \<times> int option")
  case (Pair es ex)
  from close_log_effects [OF Pair] assms show ?thesis
    unfolding Pair
    by (cases ex)
      (auto simp: shutdown_inv_def count_append quiet_counts samples_after_quiet)
qed

lemma inv_step:
  fixes s :: "'f system"
  assumes inv: "shutdown_inv cfg s" and st: "step cfg fp ev s = Some s'"
  shows "shutdown_inv cfg s'"
proof (cases ev)
  case MainTest
  with st inv show ?thesis
    by (auto simp: shutdown_inv_def split: if_splits)
next
  case (MainBody tb adc wrc)
  with st inv show ?thesis
    by (auto simp: inv_main_body split: if_splits)
next
  case (MainShutdown tb wrc)
  with st inv show ?thesis
    by (auto simp: inv_main_shutdown split: if_splits)
next
  case (MainClose crc)
  with st inv show ?thesis
    by (auto simp: inv_main_close split: if_splits)
next
  case MainJoin
  with st inv show ?thesis
    by (auto simp: shutdown_inv_def split: if_splits)
next
  case CmdTest
  with st inv show ?thesis
    by (auto intro: inv_pc_only split: if_splits)
next
  case (CmdBody sel rd wrc)
  with st obtain oc d' g' buff' es pc ex where
    e: "exited s = None"
    and b: "get_commands_body (logfd cfg) (sigint s) (glob s) (cbuff s) sel rd wrc
              = (oc, d', g', buff', es)"
    and t: "thread_after oc = Some (pc, ex)"
    and s': "s' = s\<lparr>glob := g', sigint := d', cpc := pc, cbuff := buff',
                    trace := trace s @ es, exited := ex\<rparr>"
    by (auto split: if_splits prod.splits option.splits)
  from get_commands_body_quiet [OF b]
  have q: "quiet es" and x: "\<forall>n. oc = ProcessExit n \<longrightarrow> n = 1"
    by simp_all
  from thread_after_exit [OF t x] have "ex \<noteq> Some (Exited 0)" .
  with inv e q show ?thesis
    by (rule inv_quiet_step) (simp_all add: s')
next
  case BtnTest
  with st inv show ?thesis
    by (auto intro: inv_pc_only split: if_splits)
next
  case (BtnBody gpio)
  with st obtain oc d' g' es pc ex where
    e: "exited s = None"
    and b: "check_button_body 10 (sigint s) gpio (glob s) = (oc, d', g', es)"
    and t: "thread_after oc = Some (pc, ex)"
    and s': "s' = s\<lparr>glob := g', sigint := d', bpc := pc, trace := trace s @ es, exited := ex\<rparr>"
    by (auto split: if_splits prod.splits option.splits)
  from check_button_body_quiet [OF b]
  have q: "quiet es" and x: "\<forall>n. oc = ProcessExit n \<longrightarrow> n = 1"
    by simp_all
  from thread_after_exit [OF t x] have "ex \<noteq> Some (Exited 0)" .
  with inv e q show ?thesis
    by (rule inv_quiet_step) (simp_all add: s')
next
  case Interrupt
  with st have e: "exited s = None"
    and s': "s' = s\<lparr>glob := signal_handler SIGINT (glob s), sigint := SigDfl\<rparr>
             \<or> s' = s\<lparr>exited := Some (Killed SIGINT)\<rparr>"
    by (auto simp: raise_def split: if_splits)
  have q: "quiet ([] :: 'f effect list)"
    by (simp add: quiet_def)
  from s' show ?thesis
  proof
    assume "s' = s\<lparr>glob := signal_handler SIGINT (glob s), sigint := SigDfl\<rparr>"
    with inv e show ?thesis
      by (auto intro: inv_pc_only)
  next
    assume k: "s' = s\<lparr>exited := Some (Killed SIGINT)\<rparr>"
    have "Some (Killed SIGINT) \<noteq> Some (Exited 0)" by simp
    with inv e q show ?thesis
      by (rule inv_quiet_step) (simp_all add: k)
  qed
qed

lemma inv_run:
  "shutdown_inv cfg s \<Longrightarrow> run cfg fp evs s = Some s' \<Longrightarrow> shutdown_inv cfg s'"
proof (induction evs arbitrary: s)
  case Nil
  then show ?case by simp
next
  case (Cons ev evs)
  then show ?case by (auto split: option.splits dest: inv_step)
qed

text \<open>
  What holds of the shutdown message in every run, for every interleaving of the
  three threads and of interrupts: it is never written while main is in its sampling
  loop, never twice, no sample record follows it, and a run in which main returns 0
  has written it once to stdout and, when a log is configured, once to the log.
\<close>

lemma shutdown_record_at_most_once:
  assumes "run cfg fp evs (init_system p sc buff0) = Some s"
  shows "(mpc s = M_Test \<or> mpc s = M_Body \<longrightarrow> shutdown_count (trace s) = 0)
    \<and> shutdown_count (trace s) \<le> 1
    \<and> samples_after_shutdown (trace s) = 0
    \<and> (mpc s = M_Close \<or> mpc s = M_Join \<or> mpc s = M_Returned \<longrightarrow> shutdown_count (trace s) = 1)
    \<and> (exited s = Some (Exited 0) \<longrightarrow>
         shutdown_count (trace s) = 1
         \<and> shutdown_log_count (trace s) = (if logfile cfg = None then 0 else 1))"
proof -
  from inv_run [OF inv_init assms] have "shutdown_inv cfg s" .
  then show ?thesis
    by (auto simp: shutdown_inv_def split: if_splits)
qed

text \<open>
  C1 fails on the code in the very case it names: a button press and an OFF command
  close together. Both threads have passed their test of \<^verbatim>\<open>user_int\<close>. The button
  thread raises SIGINT first: the handler sets the flag and, being one-shot, is gone.
  The command thread then reads \<^verbatim>\<open>OFF\<close> and raises SIGINT as well (line 288): the
  default action terminates the process while main is still in its loop. No shutdown
  message has been written, to stdout or to the log, and main never reaches line 193.
\<close>

theorem second_trigger_ends_run_without_shutdown_record:
  "run with_log exact_arith
       [CmdTest, BtnTest, MainTest, MainBody ''12:00:00'' 512 32,
        BtnBody 1, CmdBody 1 (ReadBytes ''OFF\<newline>'') 4]
       (init_system 1 (CHR ''F'') stack0)
     = Some ((init_system 1 (CHR ''F'') stack0)
          \<lparr>glob := init_globals\<lparr>user_int := 1\<rparr>, sigint := SigDfl,
           cpc := T_Body, bpc := T_Exited,
           cbuff := read_into stack0 ''OFF\<newline>'',
           trace := [Stdout (SampleLine ''12:00:00'' (get_temperature exact_arith 512 (CHR ''F''))),
                     LogWrite32 (SampleLine ''12:00:00'' (get_temperature exact_arith 512 (CHR ''F''))),
                     Sleep 1,
                     LogBytes ''OFF\<newline>''],
           exited := Some (Killed 2)\<rparr>)
   \<and> shutdown_count
         [Stdout (SampleLine ''12:00:00'' (get_temperature exact_arith 512 (CHR ''F''))),
          LogWrite32 (SampleLine ''12:00:00'' (get_temperature exact_arith 512 (CHR ''F''))),
          Sleep 1,
          LogBytes ''OFF\<newline>''] = 0
   \<and> shutdown_log_count
         [Stdout (SampleLine ''12:00:00'' (get_temperature exact_arith 512 (CHR ''F''))),
          LogWrite32 (SampleLine ''12:00:00'' (get_temperature exact_arith 512 (CHR ''F''))),
          Sleep 1,
          LogBytes ''OFF\<newline>''] = 0
   \<and> run with_log exact_arith
       [CmdTest, BtnTest, MainTest, MainBody ''12:00:00'' 512 32,
        BtnBody 1, CmdBody 1 (ReadBytes ''OFF\<newline>'') 4,
        MainTest]
       (init_system 1 (CHR ''F'') stack0) = None"
  by (simp add: eval_cmd with_log_def stack0_def init_globals_def shutdown_count_def
      shutdown_log_count_def)

end
